theory Spec2Isabelle
  imports Main "HOL-Library.Word" "HOL-Library.Sublist" "HOL-Library.Multiset"
begin

unbundle bit_operations_syntax

section \<open>Strings and numbers of the source language\<close>

text \<open>
  A TypeScript string is modelled as a \<^typ>\<open>string\<close> holding its UTF-8 bytes. The
  regular expressions of the source only tell ASCII letters and digits from everything
  else, so every byte of a character beyond ASCII is "not alphanumeric", exactly as its
  UTF-16 code units are in the source. \<open>string | null\<close> and \<open>string | undefined\<close>
  are \<^typ>\<open>string option\<close>.

  A \<open>number\<close> that holds an integer is an \<^typ>\<open>int\<close>. The usage codes, behavior ids
  and parameters of the source are integers far below \<open>2^53\<close>, where a \<open>number\<close> is
  exact and \<open>toString\<close> writes plain digits.
\<close>

definition truthy :: "string option \<Rightarrow> bool" where
  \<comment> \<open>JavaScript truthiness of a \<open>string | null | undefined\<close>: the empty string is falsy.\<close>
  "truthy v = (case v of None \<Rightarrow> False | Some s \<Rightarrow> s \<noteq> [])"

definition isUpperAZ :: "char \<Rightarrow> bool" where
  "isUpperAZ c \<longleftrightarrow> (of_char CHR ''A'' :: nat) \<le> of_char c \<and> (of_char c :: nat) \<le> of_char CHR ''Z''"

definition isLowerAZ :: "char \<Rightarrow> bool" where
  "isLowerAZ c \<longleftrightarrow> (of_char CHR ''a'' :: nat) \<le> of_char c \<and> (of_char c :: nat) \<le> of_char CHR ''z''"

definition isDigit09 :: "char \<Rightarrow> bool" where
  "isDigit09 c \<longleftrightarrow> (of_char CHR ''0'' :: nat) \<le> of_char c \<and> (of_char c :: nat) \<le> of_char CHR ''9''"

definition isAlnum :: "char \<Rightarrow> bool" where
  \<comment> \<open>the character class \<open>[a-zA-Z0-9]\<close>\<close>
  "isAlnum c \<longleftrightarrow> isLowerAZ c \<or> isUpperAZ c \<or> isDigit09 c"

definition testSingleUpper :: "string \<Rightarrow> bool" where
  \<comment> \<open>\<open>/^[A-Z]$/.test(s)\<close>\<close>
  "testSingleUpper s = (case s of [c] \<Rightarrow> isUpperAZ c | _ \<Rightarrow> False)"

definition removeKeyboardPrefix :: "string \<Rightarrow> string" where
  \<comment> \<open>\<open>s.replace(/^Keyboard /, '')\<close>\<close>
  "removeKeyboardPrefix s = (if prefix ''Keyboard '' s then drop 9 s else s)"

definition replaceNonAlnum :: "string \<Rightarrow> string" where
  \<comment> \<open>\<open>s.replace(/[^a-zA-Z0-9]/g, '_')\<close>\<close>
  "replaceNonAlnum s = map (\<lambda>c. if isAlnum c then c else CHR ''_'') s"

fun collapseUnderscores :: "string \<Rightarrow> string" where
  \<comment> \<open>\<open>s.replace(/_+/g, '_')\<close>\<close>
  "collapseUnderscores (c # d # cs) =
     (if c = CHR ''_'' \<and> d = CHR ''_'' then collapseUnderscores (d # cs)
      else c # collapseUnderscores (d # cs))"
| "collapseUnderscores cs = cs"

definition trimUnderscoreEnds :: "string \<Rightarrow> string" where
  \<comment> \<open>\<open>s.replace(/^_|_$/g, '')\<close>: one underscore at the start and one at the end\<close>
  "trimUnderscoreEnds s =
     (let t = (case s of c # cs \<Rightarrow> if c = CHR ''_'' then cs else s | [] \<Rightarrow> s)
      in if t \<noteq> [] \<and> last t = CHR ''_'' then butlast t else t)"

definition upperChar :: "char \<Rightarrow> char" where
  "upperChar c = (if isLowerAZ c then char_of (of_char c - (32::nat)) else c)"

definition toUpperCase :: "string \<Rightarrow> string" where
  \<comment> \<open>\<open>s.toUpperCase()\<close>, applied in the source to letters, digits and underscores only\<close>
  "toUpperCase s = map upperChar s"

definition cleanKeyName :: "string \<Rightarrow> string" where
  \<comment> \<open>the last statement of \<open>getZmkKeyName\<close>: the chain of replacements on \<open>cleanLabel\<close>\<close>
  "cleanKeyName cleanLabel =
     toUpperCase (trimUnderscoreEnds (collapseUnderscores (replaceNonAlnum cleanLabel)))"

section \<open>HidMapper\<close>

definition HID_PAGE_KEYBOARD :: int where "HID_PAGE_KEYBOARD = 0x07"

definition HID_PAGE_CONSUMER :: int where "HID_PAGE_CONSUMER = 0x0C"

definition hid_usage_page_and_id_from_usage :: "int \<Rightarrow> int \<times> int" where
  \<comment> \<open>Modelled from the spec: the decoder of module \<open>hid-usages\<close> is not among the
      sources. A usage code is \<open>(page << 16) | id\<close> with 16-bit page and id, and decoding
      is a shift and a mask.\<close>
  "hid_usage_page_and_id_from_usage usage = (drop_bit 16 usage AND 0xffff, usage AND 0xffff)"

type_synonym usage_labels = "int \<Rightarrow> int \<Rightarrow> string option"
  \<comment> \<open>\<open>hid_usage_get_label(page, id)\<close>: the usage-name database, a parameter of the model\<close>

text \<open>
  There are two copies of \<open>HidMapper.ts\<close> among the sources. The one that follows the
  tests in \<open>HidMapper.test.ts\<close> has a table for the modifier ids and override keys that
  are the short labels of the usage database; it is the one the tests describe, and it
  keeps the source's names here. The other, \<open>unnamed/part_000\<close>, has no modifier table
  and override keys that are the long usage names; its constants carry the suffix
  \<open>_part_000\<close>.

  An override table is a \<open>Record<string, string>\<close>, read as \<open>KEY_NAME_OVERRIDES[label]\<close>;
  it is modelled as the list of its own entries, looked up with \<^const>\<open>map_of\<close>. Labels
  are taken not to name a property that every object inherits (such as
  \<open>constructor\<close>), for which the source's lookup would not yield a string.
\<close>

definition KEY_NAME_OVERRIDES :: "(string \<times> string) list" where
  "KEY_NAME_OVERRIDES =
   [(''1'', ''N1''), (''2'', ''N2''), (''3'', ''N3''), (''4'', ''N4''), (''5'', ''N5''),
    (''6'', ''N6''), (''7'', ''N7''), (''8'', ''N8''), (''9'', ''N9''), (''0'', ''N0''),
    ([CHR 0xE2, CHR 0x90, CHR 0xA3], ''SPACE''),
    (''Ret'', ''ENTER''), (''ESC'', ''ESC''), (''BkSp'', ''BSPC''), (''TAB'', ''TAB''),
    (''CAPS'', ''CAPS''),
    (''Ctrl'', ''LCTRL''), (''Shft'', ''LSHFT''), (''Alt'', ''LALT''), (''GUI'', ''LGUI''),
    (''AltG'', ''RALT''),
    ([CHR 0xE2, CHR 0x86, CHR 0x92], ''RIGHT''), ([CHR 0xE2, CHR 0x86, CHR 0x90], ''LEFT''),
    ([CHR 0xE2, CHR 0x86, CHR 0x93], ''DOWN''), ([CHR 0xE2, CHR 0x86, CHR 0x91], ''UP''),
    (''F1'', ''F1''), (''F2'', ''F2''), (''F3'', ''F3''), (''F4'', ''F4''), (''F5'', ''F5''),
    (''F6'', ''F6''), (''F7'', ''F7''), (''F8'', ''F8''), (''F9'', ''F9''), (''F10'', ''F10''),
    (''F11'', ''F11''), (''F12'', ''F12''),
    (''HOME'', ''HOME''), (''END'', ''END''), (''PGUP'', ''PG_UP''), (''PGDN'', ''PG_DN''),
    (''INS'', ''INS''), (''DEL'', ''DEL''),
    (''-'', ''MINUS''), (''='', ''EQUAL''), (''{'', ''LBKT''), (''}'', ''RBKT''),
    ([CHR 0x5C], ''BSLH''), ('';'', ''SEMI''), ([CHR 0x27], ''SQT''), ([CHR 0x60], ''GRAVE''),
    ('','', ''COMMA''), (''.'', ''DOT''), (''/'', ''FSLH'')]"

definition modifierMap :: "(int \<times> string) list" where
  "modifierMap =
   [(0xE0, ''LCTRL''), (0xE1, ''LSHFT''), (0xE2, ''LALT''), (0xE3, ''LGUI''),
    (0xE4, ''RCTRL''), (0xE5, ''RSHFT''), (0xE6, ''RALT''), (0xE7, ''RGUI'')]"

definition getZmkKeyName :: "usage_labels \<Rightarrow> int \<Rightarrow> string option" where
  \<comment> \<open>\<open>HidMapper.getZmkKeyName\<close> with the modifier table\<close>
  "getZmkKeyName hid_usage_get_label hidUsage =
     (let (page, id) = hid_usage_page_and_id_from_usage hidUsage in
      if page \<noteq> HID_PAGE_KEYBOARD \<and> page \<noteq> HID_PAGE_CONSUMER then None
      else if page = HID_PAGE_KEYBOARD \<and> id \<ge> 0xE0 \<and> id \<le> 0xE7 then
        (if truthy (map_of modifierMap id) then map_of modifierMap id else None)
      else
        let label = hid_usage_get_label page id in
        if \<not> truthy label then None
        else if truthy (map_of KEY_NAME_OVERRIDES (the label)) then
          map_of KEY_NAME_OVERRIDES (the label)
        else if testSingleUpper (the label) then label
        else Some (cleanKeyName (removeKeyboardPrefix (the label))))"

definition KEY_NAME_OVERRIDES_part_000 :: "(string \<times> string) list" where
  \<comment> \<open>the table of the second copy of \<open>HidMapper.ts\<close> (\<open>unnamed/part_000\<close>), keyed by the
      long usage names\<close>
  "KEY_NAME_OVERRIDES_part_000 =
   [(''1 and !'', ''N1''), (''2 and @'', ''N2''), (''3 and #'', ''N3''), (''4 and $'', ''N4''),
    (''5 and %'', ''N5''), (''6 and ^'', ''N6''), (''7 and &'', ''N7''), (''8 and *'', ''N8''),
    (''9 and ('', ''N9''), (''0 and )'', ''N0''),
    (''Spacebar'', ''SPACE''), (''Keyboard Return (ENTER)'', ''ENTER''),
    (''Keyboard Escape'', ''ESC''), (''Keyboard Delete (Backspace)'', ''BSPC''),
    (''Keyboard Tab'', ''TAB''), (''Keyboard Caps Lock'', ''CAPS''),
    (''Keyboard Left Control'', ''LCTRL''), (''Keyboard Left Shift'', ''LSHFT''),
    (''Keyboard Left Alt'', ''LALT''), (''Keyboard Left GUI'', ''LGUI''),
    (''Keyboard Right Control'', ''RCTRL''), (''Keyboard Right Shift'', ''RSHFT''),
    (''Keyboard Right Alt'', ''RALT''), (''Keyboard Right GUI'', ''RGUI''),
    (''Keyboard Right Arrow'', ''RIGHT''), (''Keyboard Left Arrow'', ''LEFT''),
    (''Keyboard Down Arrow'', ''DOWN''), (''Keyboard Up Arrow'', ''UP''),
    (''Keyboard F1'', ''F1''), (''Keyboard F2'', ''F2''), (''Keyboard F3'', ''F3''),
    (''Keyboard F4'', ''F4''), (''Keyboard F5'', ''F5''), (''Keyboard F6'', ''F6''),
    (''Keyboard F7'', ''F7''), (''Keyboard F8'', ''F8''), (''Keyboard F9'', ''F9''),
    (''Keyboard F10'', ''F10''), (''Keyboard F11'', ''F11''), (''Keyboard F12'', ''F12''),
    (''Keyboard Home'', ''HOME''), (''Keyboard End'', ''END''),
    (''Keyboard Page Up'', ''PG_UP''), (''Keyboard Page Down'', ''PG_DN''),
    (''Keyboard Insert'', ''INS''), (''Keyboard Delete Forward'', ''DEL''),
    (''- and _'', ''MINUS''), (''= and +'', ''EQUAL''), (''[ and {'', ''LBKT''),
    (''] and }'', ''RBKT''), (CHR 0x5C # '' and |'', ''BSLH''), (''; and :'', ''SEMI''),
    (CHR 0x27 # '' and '' @ [CHR 0x22], ''SQT''), (CHR 0x60 # '' and ~'', ''GRAVE''),
    ('', and <'', ''COMMA''), (''. and >'', ''DOT''), (''/ and ?'', ''FSLH'')]"

definition getZmkKeyName_part_000 :: "usage_labels \<Rightarrow> int \<Rightarrow> string option" where
  \<comment> \<open>\<open>HidMapper.getZmkKeyName\<close> of \<open>unnamed/part_000\<close>: no modifier table\<close>
  "getZmkKeyName_part_000 hid_usage_get_label hidUsage =
     (let (page, id) = hid_usage_page_and_id_from_usage hidUsage in
      if page \<noteq> HID_PAGE_KEYBOARD \<and> page \<noteq> HID_PAGE_CONSUMER then None
      else
        let label = hid_usage_get_label page id in
        if \<not> truthy label then None
        else if truthy (map_of KEY_NAME_OVERRIDES_part_000 (the label)) then
          map_of KEY_NAME_OVERRIDES_part_000 (the label)
        else if testSingleUpper (the label) then label
        else Some (cleanKeyName (removeKeyboardPrefix (the label))))"

section \<open>BehaviorMapper\<close>

text \<open>
  Modelled from the spec: the declarations of \<open>Behavior\<close>, \<open>Binding\<close> and \<open>Layer\<close>
  (module \<open>types\<close>) are not among the sources. The fields are those of the data model of
  the specification, which are the fields that \<open>BehaviorMapper.ts\<close> reads and that the
  tests write. An absent \<open>param2\<close> (\<open>null\<close> or \<open>undefined\<close>) is \<^const>\<open>None\<close>.
\<close>

record Behavior =
  id_Behavior :: int
  code :: string
  displayName :: string
  paramCount :: nat
  description :: string

record Binding =
  behaviorId :: int
  param1 :: int
  param2 :: "int option"
  position :: int

definition BEHAVIORS :: "(int \<times> Behavior) list" where
  "BEHAVIORS =
   [(0, \<lparr>id_Behavior = 0, code = ''trans'', displayName = ''Transparent'', paramCount = 0,
         description = ''Pass through to lower layer''\<rparr>),
    (1, \<lparr>id_Behavior = 1, code = ''kp'', displayName = ''Key Press'', paramCount = 1,
         description = ''Basic key press''\<rparr>),
    (2, \<lparr>id_Behavior = 2, code = ''mt'', displayName = ''Mod-Tap'', paramCount = 2,
         description = ''Modifier when held, key when tapped''\<rparr>),
    (3, \<lparr>id_Behavior = 3, code = ''lt'', displayName = ''Layer-Tap'', paramCount = 2,
         description = ''Layer when held, key when tapped''\<rparr>),
    (4, \<lparr>id_Behavior = 4, code = ''mo'', displayName = ''Momentary Layer'', paramCount = 1,
         description = ''Activate layer while held''\<rparr>),
    (5, \<lparr>id_Behavior = 5, code = ''tog'', displayName = ''Toggle Layer'', paramCount = 1,
         description = ''Toggle layer on/off''\<rparr>),
    (6, \<lparr>id_Behavior = 6, code = ''bt'', displayName = ''Bluetooth'', paramCount = 1,
         description = ''Bluetooth control''\<rparr>)]"

definition digitChar :: "nat \<Rightarrow> char" where
  "digitChar d = ''0123456789abcdefghijklmnopqrstuvwxyz'' ! d"

function digitsOf :: "nat \<Rightarrow> nat \<Rightarrow> string" where
  "digitsOf radix n =
     (if radix < 2 \<or> n < radix then [digitChar n]
      else digitsOf radix (n div radix) @ [digitChar (n mod radix)])"
  by pat_completeness auto
termination
  by (relation "measure (\<lambda>(radix, n). n)") auto

definition numberToString :: "nat \<Rightarrow> int \<Rightarrow> string" where
  \<comment> \<open>\<open>value.toString(radix)\<close> of an integer: digits, lower case, a minus sign when negative\<close>
  "numberToString radix v =
     (if v < 0 then CHR ''-'' # digitsOf radix (nat (- v)) else digitsOf radix (nat v))"

definition formatParam :: "int \<Rightarrow> Behavior \<Rightarrow> (int \<Rightarrow> string option) \<Rightarrow> string" where
  "formatParam v behavior getKeyName =
     (if code behavior = ''kp'' \<or> code behavior = ''mt'' then
        (let keyName = getKeyName v in
         if truthy keyName then the keyName
         else ''/* HID 0x'' @ numberToString 16 v @ '' */'')
      else if code behavior = ''mo'' \<or> code behavior = ''tog'' then numberToString 10 v
      else numberToString 10 v)"

definition formatBindingFrom ::
  "(int \<rightharpoonup> Behavior) \<Rightarrow> Binding \<Rightarrow> (int \<Rightarrow> string option) \<Rightarrow> string" where
  \<comment> \<open>the body of \<open>formatBinding\<close>; its first argument is \<open>BEHAVIORS.get\<close>\<close>
  "formatBindingFrom BEHAVIORS_get binding getKeyName =
     (case BEHAVIORS_get (behaviorId binding) of
        None \<Rightarrow> ''/* Unknown behavior '' @ numberToString 10 (behaviorId binding) @ '' */''
      | Some behavior \<Rightarrow>
          if code behavior = ''trans'' then ''&trans''
          else if paramCount behavior = 1 then
            ''&'' @ code behavior @ '' '' @ formatParam (param1 binding) behavior getKeyName
          else if paramCount behavior = 2 then
            (if code behavior = ''lt'' then
               (let layerNum = numberToString 10 (param1 binding);
                    keyName = (case param2 binding of
                       Some p2 \<Rightarrow>
                         if truthy (getKeyName p2) then the (getKeyName p2)
                         else ''/* HID 0x'' @ numberToString 16 p2 @ '' */''
                     | None \<Rightarrow> ''/* missing key */'')
                in ''&lt '' @ layerNum @ '' '' @ keyName)
             else
               (let p1 = formatParam (param1 binding) behavior getKeyName;
                    p2 = (case param2 binding of
                       Some v \<Rightarrow> formatParam v behavior getKeyName
                     | None \<Rightarrow> ''/* missing param2 */'')
                in ''&'' @ code behavior @ '' '' @ p1 @ '' '' @ p2))
          else ''&'' @ code behavior)"

definition formatBinding :: "Binding \<Rightarrow> (int \<Rightarrow> string option) \<Rightarrow> string" where
  "formatBinding = formatBindingFrom (map_of BEHAVIORS)"

subsection \<open>The registry as an object of the store\<close>

text \<open>
  \<open>BEHAVIORS\<close> is a \<open>Map\<close> object created once when the module is loaded, and
  \<open>getAllBehaviors\<close> returns \<open>new Map(BEHAVIORS)\<close>. Objects live in a store and are
  named by references: the store is the list of all objects allocated so far, and a
  reference is an index into it. A \<open>Map\<close> holds its entries in insertion order, each
  value a reference to a \<open>Behavior\<close> object. Copying a \<open>Map\<close> copies the entries, not
  the objects they refer to.
\<close>

type_synonym ref = nat

datatype object = MapObject "(int \<times> ref) list" | BehaviorObject Behavior

type_synonym store = "object list"

definition deref :: "store \<Rightarrow> ref \<Rightarrow> object option" where
  "deref s r = (if r < length s then Some (s ! r) else None)"

definition alloc :: "object \<Rightarrow> store \<Rightarrow> ref \<times> store" where
  "alloc obj s = (length s, s @ [obj])"

fun allocBehaviors :: "(int \<times> Behavior) list \<Rightarrow> store \<Rightarrow> (int \<times> ref) list \<times> store" where
  "allocBehaviors [] s = ([], s)"
| "allocBehaviors ((k, b) # kbs) s =
     (let (r, s1) = alloc (BehaviorObject b) s;
          (es, s2) = allocBehaviors kbs s1
      in ((k, r) # es, s2))"

definition moduleInit :: "ref \<times> store" where
  \<comment> \<open>\<open>const BEHAVIORS = new Map(...)\<close>, given the seven entries: each \<open>Behavior\<close>
      literal is allocated, then the \<open>Map\<close> that refers to them\<close>
  "moduleInit = (let (es, s) = allocBehaviors BEHAVIORS [] in alloc (MapObject es) s)"

definition BEHAVIORS_ref :: ref where
  "BEHAVIORS_ref = fst moduleInit"

definition initialStore :: store where
  "initialStore = snd moduleInit"

definition BEHAVIORS_get :: "store \<Rightarrow> int \<rightharpoonup> Behavior" where
  \<comment> \<open>\<open>BEHAVIORS.get(id)\<close>, read from the store\<close>
  "BEHAVIORS_get s k =
     (case deref s BEHAVIORS_ref of
        Some (MapObject es) \<Rightarrow>
          (case map_of es k of
             Some r \<Rightarrow> (case deref s r of Some (BehaviorObject b) \<Rightarrow> Some b | _ \<Rightarrow> None)
           | None \<Rightarrow> None)
      | _ \<Rightarrow> None)"

definition getAllBehaviors :: "store \<Rightarrow> (ref \<times> store) option" where
  \<comment> \<open>\<open>return new Map(BEHAVIORS)\<close>; \<open>None\<close> stands for the TypeError of a constructor
      argument that is not iterable\<close>
  "getAllBehaviors s =
     (case deref s BEHAVIORS_ref of
        Some (MapObject es) \<Rightarrow> Some (alloc (MapObject es) s)
      | _ \<Rightarrow> None)"

definition mapContents :: "store \<Rightarrow> ref \<Rightarrow> (int \<times> object option) list option" where
  \<comment> \<open>the entries of the \<open>Map\<close> at a reference, each value looked up in the store\<close>
  "mapContents s r =
     (case deref s r of
        Some (MapObject es) \<Rightarrow> Some (map (\<lambda>(k, v). (k, deref s v)) es)
      | _ \<Rightarrow> None)"

definition registryContents :: "(int \<times> object option) list" where
  \<comment> \<open>the seven entries of the registry, as \<open>mapContents\<close> shows a \<open>Map\<close>\<close>
  "registryContents = map (\<lambda>(k, b). (k, Some (BehaviorObject b))) BEHAVIORS"

datatype mutation = MapSet int ref | MapDelete int | MapClear

fun applyMutation :: "mutation \<Rightarrow> (int \<times> ref) list \<Rightarrow> (int \<times> ref) list" where
  \<comment> \<open>\<open>m.set(k, v)\<close>, \<open>m.delete(k)\<close>, \<open>m.clear()\<close> on the entries of a \<open>Map\<close>\<close>
  "applyMutation (MapSet k v) es =
     (if k \<in> fst ` set es then map (\<lambda>(k', v'). if k' = k then (k', v) else (k', v')) es
      else es @ [(k, v)])"
| "applyMutation (MapDelete k) es = filter (\<lambda>(k', v'). k' \<noteq> k) es"
| "applyMutation MapClear es = []"

definition mutateMap :: "ref \<Rightarrow> mutation \<Rightarrow> store \<Rightarrow> store option" where
  "mutateMap r m s =
     (case deref s r of
        Some (MapObject es) \<Rightarrow> Some (s[r := MapObject (applyMutation m es)])
      | _ \<Rightarrow> None)"

text \<open>
  A caller of the module holds the references that \<open>getAllBehaviors\<close> has returned to it
  (\<open>BEHAVIORS\<close> itself is not exported). It may call \<open>getAllBehaviors\<close> again, create
  \<open>Behavior\<close> objects of its own, and mutate any \<open>Map\<close> it was given, named here by its
  place in the list of returned references, with the mutators of \<open>Map\<close>: \<open>set\<close>,
  \<open>delete\<close> and \<open>clear\<close>. It may also write to the fields of a \<open>Behavior\<close> object
  that it reaches through such a \<open>Map\<close>, as in \<open>m.get(1).code = 'zz'\<close>: the entries of a
  copy refer to the same \<open>Behavior\<close> objects as the registry.
\<close>

record caller =
  heap :: store
  returned :: "ref list"

datatype call =
    CallGetAllBehaviors
  | CallNewBehavior Behavior
  | CallMutate nat mutation
  | CallWriteRecord nat int Behavior

definition writeRecord :: "ref \<Rightarrow> int \<Rightarrow> Behavior \<Rightarrow> store \<Rightarrow> store option" where
  \<comment> \<open>\<open>Object.assign(m.get(k), newRecord)\<close> for the \<open>Map\<close> \<open>m\<close> at a reference: the fields
      of the object that the entry refers to are overwritten in place; \<open>None\<close> stands
      for the TypeError when the \<open>Map\<close> has no such key\<close>
  "writeRecord m k newRecord s =
     (case deref s m of
        Some (MapObject es) \<Rightarrow>
          (case map_of es k of
             Some r \<Rightarrow>
               (case deref s r of
                  Some (BehaviorObject b) \<Rightarrow> Some (s[r := BehaviorObject newRecord])
                | _ \<Rightarrow> None)
           | None \<Rightarrow> None)
      | _ \<Rightarrow> None)"

fun step :: "call \<Rightarrow> caller \<Rightarrow> caller option" where
  "step CallGetAllBehaviors c =
     (case getAllBehaviors (heap c) of
        Some (r, s) \<Rightarrow> Some \<lparr>heap = s, returned = returned c @ [r]\<rparr>
      | None \<Rightarrow> None)"
| "step (CallNewBehavior b) c = Some (c\<lparr>heap := snd (alloc (BehaviorObject b) (heap c))\<rparr>)"
| "step (CallMutate i m) c =
     (if i < length (returned c) then
        (case mutateMap (returned c ! i) m (heap c) of
           Some s \<Rightarrow> Some (c\<lparr>heap := s\<rparr>)
         | None \<Rightarrow> None)
      else None)"
| "step (CallWriteRecord i k newRecord) c =
     (if i < length (returned c) then
        (case writeRecord (returned c ! i) k newRecord (heap c) of
           Some s \<Rightarrow> Some (c\<lparr>heap := s\<rparr>)
         | None \<Rightarrow> None)
      else None)"

fun mapLevel :: "call \<Rightarrow> bool" where
  \<comment> \<open>the calls that do not write to the fields of a \<open>Behavior\<close> object\<close>
  "mapLevel (CallWriteRecord i k newRecord) = False"
| "mapLevel x = True"

fun run :: "call list \<Rightarrow> caller \<Rightarrow> caller option" where
  "run [] c = Some c"
| "run (x # xs) c = (case step x c of Some c' \<Rightarrow> run xs c' | None \<Rightarrow> None)"

definition moduleLoaded :: caller where
  "moduleLoaded = \<lparr>heap = initialStore, returned = []\<rparr>"

definition registryIntact :: "caller \<Rightarrow> bool" where
  \<comment> \<open>the objects allocated when the module was loaded are as they were, and the caller
      holds distinct references to later objects only\<close>
  "registryIntact c \<longleftrightarrow>
     take (length initialStore) (heap c) = initialStore
     \<and> distinct (returned c)
     \<and> (\<forall>r \<in> set (returned c). length initialStore \<le> r \<and> r < length (heap c))"

definition registryShape :: "caller \<Rightarrow> bool" where
  \<comment> \<open>the registry \<open>Map\<close> has the entries it was created with, they refer to
      \<open>Behavior\<close> objects, and the caller holds distinct references to later objects\<close>
  "registryShape c \<longleftrightarrow>
     BEHAVIORS_ref < length (heap c)
     \<and> heap c ! BEHAVIORS_ref = initialStore ! BEHAVIORS_ref
     \<and> (\<forall>r < BEHAVIORS_ref. \<exists>b. heap c ! r = BehaviorObject b)
     \<and> distinct (returned c)
     \<and> (\<forall>r \<in> set (returned c). BEHAVIORS_ref < r \<and> r < length (heap c))"

section \<open>KeymapGenerator: the rows of a layer\<close>

record Layer =
  id_Layer :: int
  label :: string
  bindings :: "Binding list"

function rowsOfSix :: "'a list \<Rightarrow> 'a list list" where
  \<comment> \<open>Modelled from the spec: fixed rows of 6 tokens each, the final row possibly
      shorter; at most 6 tokens make exactly one row.\<close>
  "rowsOfSix xs = (if length xs \<le> 6 then [xs] else take 6 xs # rowsOfSix (drop 6 xs))"
  by pat_completeness auto
termination
  by (relation "measure length") auto

fun joinTokens :: "string list \<Rightarrow> string" where
  \<comment> \<open>Modelled from the spec: the tokens of a row, separated by white space (one blank).\<close>
  "joinTokens [] = []"
| "joinTokens [t] = t"
| "joinTokens (t # ts) = t @ '' '' @ joinTokens ts"

definition generateLayer_rows :: "usage_labels \<Rightarrow> Layer \<Rightarrow> string list list" where
  \<comment> \<open>Modelled from the spec: \<open>KeymapGenerator.ts\<close> is not among the sources, only its
      tests are. Of \<open>generateLayer\<close> this is the content of the \<open>bindings\<close> block: the
      bindings sorted by ascending \<open>position\<close>, each formatted by \<open>formatBinding\<close>
      with \<open>getZmkKeyName\<close> as resolver, in rows of 6 tokens, the last row possibly shorter.\<close>
  "generateLayer_rows hid_usage_get_label layer =
     rowsOfSix (map (\<lambda>b. formatBinding b (getZmkKeyName hid_usage_get_label))
                    (sort_key position (bindings layer)))"

definition generateLayer_lines :: "usage_labels \<Rightarrow> Layer \<Rightarrow> string list" where
  \<comment> \<open>Modelled from the spec: one row per text line, its tokens separated by white space.\<close>
  "generateLayer_lines hid_usage_get_label layer =
     map joinTokens (generateLayer_rows hid_usage_get_label layer)"

section \<open>Auxiliary notions for the statements\<close>

definition nameOfLabel :: "(string \<times> string) list \<Rightarrow> string option \<Rightarrow> string option" where
  \<comment> \<open>the steps that both copies of \<open>getZmkKeyName\<close> run on the label they fetched,
      with the override table as a parameter\<close>
  "nameOfLabel overrides label' =
     (if \<not> truthy label' then None
      else if truthy (map_of overrides (the label')) then map_of overrides (the label')
      else if testSingleUpper (the label') then label'
      else Some (cleanKeyName (removeKeyboardPrefix (the label'))))"

definition validNameChar :: "char \<Rightarrow> bool" where
  \<comment> \<open>a character of \<open>A-Z\<close>, \<open>0-9\<close> or the underscore\<close>
  "validNameChar c \<longleftrightarrow> isUpperAZ c \<or> isDigit09 c \<or> c = CHR ''_''"

definition digitValue :: "char \<Rightarrow> nat" where
  \<comment> \<open>the value of a digit \<open>0-9\<close> or \<open>a-z\<close>\<close>
  "digitValue c = (if isDigit09 c then of_char c - 48 else of_char c - 87)"

definition valueOfDigits :: "nat \<Rightarrow> string \<Rightarrow> nat" where
  \<comment> \<open>the number that a string of digits denotes in positional notation\<close>
  "valueOfDigits radix s = foldl (\<lambda>acc c. acc * radix + digitValue c) 0 s"

section \<open>Sample inputs\<close>

definition noLabels :: usage_labels where
  "noLabels page usageId = None"

definition sampleLabels :: usage_labels where
  "sampleLabels page usageId =
     (if page = 0x07 \<and> usageId = 0x04 then Some ''A''
      else if page = 0x07 \<and> usageId = 0x1E then Some ''1''
      else if page = 0x07 \<and> usageId = 0x29 then Some ''Keyboard Escape''
      else if page = 0x07 \<and> usageId = 0x53 then Some ''Keypad Num Lock and Clear''
      else if page = 0x07 \<and> usageId = 0xE4 then Some ''Ctrl''
      else if page = 0x0C \<and> usageId = 0x300 then Some ''!''
      else None)"

definition unsortedLayer :: Layer where
  "unsortedLayer = \<lparr>id_Layer = 0, label = ''Test'', bindings =
     [\<lparr>behaviorId = 0, param1 = 0, param2 = None, position = 2\<rparr>,
      \<lparr>behaviorId = 4, param1 = 1, param2 = None, position = 1\<rparr>,
      \<lparr>behaviorId = 1, param1 = 0x70004, param2 = None, position = 0\<rparr>]\<rparr>"

definition fullLayer :: Layer where
  \<comment> \<open>the layer of the test "should format bindings in rows"\<close>
  "fullLayer = \<lparr>id_Layer = 0, label = ''Full'', bindings =
     map (\<lambda>i. \<lparr>behaviorId = 0, param1 = 0, param2 = None, position = int i\<rparr>) [0..<12]\<rparr>"

definition emptyLayer :: Layer where
  "emptyLayer = \<lparr>id_Layer = 1, label = ''Empty'', bindings = []\<rparr>"

definition writeCalls :: "call list" where
  \<comment> \<open>\<open>const m = getAllBehaviors(); m.get(1).code = 'zz'\<close>\<close>
  "writeCalls =
     [CallGetAllBehaviors,
      CallWriteRecord 0 1 \<lparr>id_Behavior = 1, code = ''zz'', displayName = ''Key Press'',
         paramCount = 1, description = ''Basic key press''\<rparr>]"

definition sampleCalls :: "call list" where
  \<comment> \<open>two copies are taken; the first is emptied, then given an entry for key 1 that
      refers to the \<open>bt\<close> object; key 0 is deleted from the second\<close>
  "sampleCalls =
     [CallGetAllBehaviors, CallMutate 0 MapClear, CallGetAllBehaviors,
      CallMutate 0 (MapSet 1 6), CallMutate 1 (MapDelete 0), CallMutate 1 (MapSet 1 6)]"

definition emptyNameResolver :: "int \<Rightarrow> string option" where
  "emptyNameResolver hidUsage = Some []"

definition testResolver :: "int \<Rightarrow> string option" where
  \<comment> \<open>\<open>mockGetKeyName\<close> of \<open>BehaviorMapper.test.ts\<close>\<close>
  "testResolver hidUsage =
     map_of [(0x04, ''Q''), (0x1A, ''W''), (0x08, ''E''), (0x2C, ''SPACE''), (0xE0, ''LCTRL''),
             (0x2B, ''TAB'')] hidUsage"

section \<open>Decoding and the modifier table\<close>

declare digitsOf.simps [simp del]

declare rowsOfSix.simps [simp del]

lemma decode_page_id:
  "hid_usage_page_and_id_from_usage u = ((u div 65536) mod 65536, u mod 65536)"
proof -
  have low: "(x::int) AND 0xffff = x mod 65536" for x
    using take_bit_eq_mask[of 16 x] by (simp add: take_bit_eq_mod mask_eq_exp_minus_1)
  show ?thesis
    by (simp add: hid_usage_page_and_id_from_usage_def low drop_bit_eq_div)
qed

lemma modifierMap_lookup:
  assumes "0xE0 \<le> i" "i \<le> (0xE7::int)"
  shows "map_of modifierMap i =
         Some ([''LCTRL'', ''LSHFT'', ''LALT'', ''LGUI'', ''RCTRL'', ''RSHFT'', ''RALT'', ''RGUI'']
               ! nat (i - 0xE0))"
proof -
  from assms have "i = 224 \<or> i = 225 \<or> i = 226 \<or> i = 227 \<or> i = 228 \<or> i = 229 \<or> i = 230 \<or> i = 231"
    by arith
  then show ?thesis
    by (elim disjE) (simp_all add: modifierMap_def)
qed

text \<open>
  The copy of \<open>getZmkKeyName\<close> with the modifier table resolves every Keyboard id from
  0xE0 to 0xE7 to the entry \<open>id - 0xE0\<close> of the table LCTRL, LSHFT, LALT, LGUI, RCTRL,
  RSHFT, RALT, RGUI, whatever the usage-name database holds: two databases give the same
  result. The code \<open>(0x07 << 16) | 0xE4\<close> resolves to RCTRL.
\<close>

lemma getZmkKeyName_modifier_table:
  assumes "hid_usage_page_and_id_from_usage u = (0x07, i)" and "0xE0 \<le> i" and "i \<le> 0xE7"
  shows "getZmkKeyName db u =
         Some ([''LCTRL'', ''LSHFT'', ''LALT'', ''LGUI'', ''RCTRL'', ''RSHFT'', ''RALT'', ''RGUI'']
               ! nat (i - 0xE0))
       \<and> getZmkKeyName db u = getZmkKeyName db' u
       \<and> getZmkKeyName db (push_bit 16 0x07 OR 0xE4) = Some ''RCTRL''"
proof -
  have g: "getZmkKeyName d u = map_of modifierMap i" for d
  proof -
    from modifierMap_lookup[OF assms(2,3)] have "truthy (map_of modifierMap i)"
      using assms(2,3) by (simp add: truthy_def nth_Cons')
    with assms show ?thesis
      by (simp add: getZmkKeyName_def HID_PAGE_KEYBOARD_def)
  qed
  have r: "getZmkKeyName db (push_bit 16 0x07 OR 0xE4) = Some ''RCTRL''"
    by (simp add: getZmkKeyName_def decode_page_id HID_PAGE_KEYBOARD_def modifierMap_def truthy_def)
  from g[of db] g[of db'] modifierMap_lookup[OF assms(2,3)] r show ?thesis
    by simp
qed

lemma getZmkKeyName_modifier_table_example:
  "hid_usage_page_and_id_from_usage 0x700E6 = (0x07, 0xE6) \<and>
   getZmkKeyName noLabels 0x700E6 = Some ''RALT'' \<and>
   getZmkKeyName noLabels 0x700E6 = getZmkKeyName sampleLabels 0x700E6"
proof -
  have d: "hid_usage_page_and_id_from_usage 0x700E6 = (0x07, 0xE6)"
    by (simp add: decode_page_id)
  from getZmkKeyName_modifier_table[OF d, of noLabels sampleLabels] d show ?thesis
    by auto
qed

text \<open>
  Claim C1. The claim is that \<open>getZmkKeyName\<close> resolves the Keyboard ids 0xE0 to 0xE7
  from the fixed table without consulting the usage-name database, so that
  \<open>(0x07 << 16) | 0xE4\<close> is RCTRL. The copy in \<open>unnamed/part_000\<close> has no such table: it
  asks the database and renames the label. For 0x700E4 it returns none when the database
  has no label, and CTRL when the label is \<open>Ctrl\<close>, the label that the comments of the
  other copy give for both Control keys; the tests expect RCTRL, which the other copy
  returns in both cases.
\<close>

theorem getZmkKeyName_part_000_modifier_ids:
  "hid_usage_page_and_id_from_usage 0x700E4 = (0x07, 0xE4)
   \<and> sampleLabels 0x07 0xE4 = Some ''Ctrl''
   \<and> getZmkKeyName_part_000 sampleLabels 0x700E4 = Some ''CTRL''
   \<and> getZmkKeyName_part_000 noLabels 0x700E4 = None
   \<and> getZmkKeyName sampleLabels 0x700E4 = Some ''RCTRL''
   \<and> getZmkKeyName noLabels 0x700E4 = Some ''RCTRL''"
  by code_simp

text \<open>
  Claim C7. A usage code whose decoded page is neither 0x07 nor 0x0C resolves to none, in
  both copies of \<open>getZmkKeyName\<close>; so does the code \<open>(0x01 << 16) | 0x01\<close>.
\<close>

theorem getZmkKeyName_other_page:
  assumes "hid_usage_page_and_id_from_usage u = (p, i)" and "p \<noteq> 0x07" and "p \<noteq> 0x0C"
  shows "getZmkKeyName db u = None \<and> getZmkKeyName_part_000 db u = None
     \<and> getZmkKeyName db (push_bit 16 0x01 OR 0x01) = None"
  using assms
  by (simp add: getZmkKeyName_def getZmkKeyName_part_000_def HID_PAGE_KEYBOARD_def
        HID_PAGE_CONSUMER_def decode_page_id)

theorem getZmkKeyName_other_page_witness:
  "hid_usage_page_and_id_from_usage 0xFFFF = (0, 0xFFFF) \<and>
   getZmkKeyName sampleLabels 0xFFFF = None \<and>
   getZmkKeyName_part_000 sampleLabels 0xFFFF = None"
proof -
  have d: "hid_usage_page_and_id_from_usage 0xFFFF = (0, 0xFFFF)"
    by (simp add: decode_page_id)
  from getZmkKeyName_other_page[OF d, of sampleLabels] d show ?thesis
    by simp
qed

section \<open>Formatting one binding\<close>

lemma BEHAVIORS_get_unknown:
  "k \<notin> {0, 1, 2, 3, 4, 5, 6} \<Longrightarrow> map_of BEHAVIORS k = None"
  by (simp add: BEHAVIORS_def)

lemma digitsOf_nonempty: "digitsOf radix n \<noteq> []"
  by (subst digitsOf.simps) simp

lemma numberToString_nonempty: "numberToString radix v \<noteq> []"
  by (simp add: numberToString_def digitsOf_nonempty)

text \<open>
  \<open>digitsOf\<close> writes a number in positional notation: reading the digits back gives
  the number, for the radices 10 and 16 that the source uses.
\<close>

lemma digitValue_digitChar: "d < 16 \<Longrightarrow> digitValue (digitChar d) = d"
proof -
  assume "d < 16"
  then have "d \<in> {0, 1, 2, 3, 4, 5, 6, 7, 8, 9, 10, 11, 12, 13, 14, 15}"
    by (simp add: numeral_eq_Suc less_Suc_eq)
  then show ?thesis
    by (auto simp: digitValue_def digitChar_def isDigit09_def)
qed

lemma valueOfDigits_snoc:
  "valueOfDigits radix (s @ [c]) = valueOfDigits radix s * radix + digitValue c"
  by (simp add: valueOfDigits_def)

lemma valueOfDigits_digitsOf:
  "2 \<le> radix \<Longrightarrow> radix \<le> 16 \<Longrightarrow> valueOfDigits radix (digitsOf radix n) = n"
proof (induction radix n rule: digitsOf.induct)
  case (1 radix n)
  show ?case
  proof (cases "n < radix")
    case True
    with "1.prems" show ?thesis
      by (subst digitsOf.simps) (simp add: valueOfDigits_def digitValue_digitChar)
  next
    case False
    with "1.prems" have ih: "valueOfDigits radix (digitsOf radix (n div radix)) = n div radix"
      by (intro "1.IH") auto
    from "1.prems" have m: "n mod radix < radix"
      by simp
    from m "1.prems"(2) have "n mod radix < 16"
      by (rule less_le_trans)
    with False "1.prems" ih show ?thesis
      by (subst digitsOf.simps) (simp add: valueOfDigits_snoc digitValue_digitChar)
  qed
qed

lemma numberToString_value:
  assumes "radix = 10 \<or> radix = 16"
  shows "0 \<le> v \<Longrightarrow> valueOfDigits radix (numberToString radix v) = nat v"
    and "v < 0 \<Longrightarrow> numberToString radix v = CHR ''-'' # numberToString radix (- v)"
  using assms
  by (auto simp: numberToString_def valueOfDigits_digitsOf)

lemma formatBinding_nonempty: "formatBinding b r \<noteq> []"
  by (simp add: formatBinding_def formatBindingFrom_def split: option.split)

text \<open>
  Claim C3. For a binding whose \<open>behaviorId\<close> is none of 0 to 6, and any resolver,
  \<open>formatBinding\<close> returns the comment \<open>/* Unknown behavior <id> */\<close> with the id in
  decimal. \<open>formatBinding\<close> has no failing branch: for every binding and resolver it
  returns a string, which is that comment or a reference starting with \<open>&\<close>.
\<close>

theorem formatBinding_unknown_behavior:
  "(behaviorId b \<notin> {0, 1, 2, 3, 4, 5, 6} \<longrightarrow>
      formatBinding b r = ''/* Unknown behavior '' @ numberToString 10 (behaviorId b) @ '' */'')
   \<and> (prefix ''&'' (formatBinding b' r')
        \<or> formatBinding b' r' =
            ''/* Unknown behavior '' @ numberToString 10 (behaviorId b') @ '' */'')"
proof -
  have known: "prefix ''&'' (formatBindingFrom (map_of BEHAVIORS) b' r')"
    if "map_of BEHAVIORS (behaviorId b') = Some behavior" for behavior
    using that by (simp add: formatBindingFrom_def Let_def)
  show ?thesis
    using known
    by (cases "map_of BEHAVIORS (behaviorId b')")
       (simp_all add: formatBinding_def formatBindingFrom_def BEHAVIORS_get_unknown)
qed

theorem formatBinding_unknown_behavior_witness:
  "formatBinding \<lparr>behaviorId = 999, param1 = 0, param2 = None, position = 0\<rparr> testResolver
     = ''/* Unknown behavior 999 */''
   \<and> prefix ''&'' (formatBinding \<lparr>behaviorId = 1, param1 = 0x04, param2 = None, position = 0\<rparr>
                      testResolver)"
  using formatBinding_unknown_behavior
          [of "\<lparr>behaviorId = 999, param1 = 0, param2 = None, position = 0\<rparr>" testResolver
              "\<lparr>behaviorId = 1, param1 = 0x04, param2 = None, position = 0\<rparr>" testResolver]
  by (auto simp add: numberToString_def digitsOf.simps digitChar_def formatBinding_def
        formatBindingFrom_def formatParam_def BEHAVIORS_def testResolver_def truthy_def)

text \<open>
  Claim C4. For \<open>behaviorId\<close> 3 (lt) the result is \<open>&lt\<close>, \<open>param1\<close> in decimal, and
  then the resolver's name for \<open>param2\<close>, or the marker \<open>/* HID 0x<hex> */\<close> when
  \<open>param2\<close> is present and does not resolve, or \<open>/* missing key */\<close> when it is absent.
  For \<open>behaviorId\<close> 2 (mt) the result is \<open>&mt\<close>, the name of \<open>param1\<close> or its hex
  marker, and the name of \<open>param2\<close> or its hex marker, or \<open>/* missing param2 */\<close>.
  A parameter resolves when the resolver returns a name for it, that is a string that is
  not empty (the source tests \<open>getKeyName(...) || marker\<close>).
\<close>

theorem formatBinding_lt_mt:
  "(behaviorId b = 3 \<longrightarrow>
      formatBinding b r = ''&lt '' @ numberToString 10 (param1 b) @ '' '' @
        (case param2 b of
           Some p2 \<Rightarrow> if truthy (r p2) then the (r p2)
                      else ''/* HID 0x'' @ numberToString 16 p2 @ '' */''
         | None \<Rightarrow> ''/* missing key */''))
   \<and> (behaviorId b = 2 \<longrightarrow>
      formatBinding b r = ''&mt '' @
        (if truthy (r (param1 b)) then the (r (param1 b))
         else ''/* HID 0x'' @ numberToString 16 (param1 b) @ '' */'') @ '' '' @
        (case param2 b of
           Some p2 \<Rightarrow> if truthy (r p2) then the (r p2)
                      else ''/* HID 0x'' @ numberToString 16 p2 @ '' */''
         | None \<Rightarrow> ''/* missing param2 */''))"
  by (simp add: formatBinding_def formatBindingFrom_def formatParam_def BEHAVIORS_def
           split: option.split)

theorem formatBinding_lt_mt_witness:
  "formatBinding \<lparr>behaviorId = 3, param1 = 1, param2 = Some 0x2B, position = 0\<rparr> testResolver
     = ''&lt 1 TAB''
   \<and> formatBinding \<lparr>behaviorId = 3, param1 = 12, param2 = Some 0xFF, position = 0\<rparr> testResolver
     = ''&lt 12 /* HID 0xff */''
   \<and> formatBinding \<lparr>behaviorId = 3, param1 = 1, param2 = None, position = 0\<rparr> testResolver
     = ''&lt 1 /* missing key */''
   \<and> formatBinding \<lparr>behaviorId = 2, param1 = 0xE0, param2 = Some 0x04, position = 0\<rparr> testResolver
     = ''&mt LCTRL Q''
   \<and> formatBinding \<lparr>behaviorId = 2, param1 = 0x1F, param2 = None, position = 0\<rparr> testResolver
     = ''&mt /* HID 0x1f */ /* missing param2 */''"
  using
    formatBinding_lt_mt [of "\<lparr>behaviorId = 3, param1 = 1, param2 = Some 0x2B, position = 0\<rparr>" testResolver]
    formatBinding_lt_mt [of "\<lparr>behaviorId = 3, param1 = 12, param2 = Some 0xFF, position = 0\<rparr>" testResolver]
    formatBinding_lt_mt [of "\<lparr>behaviorId = 3, param1 = 1, param2 = None, position = 0\<rparr>" testResolver]
    formatBinding_lt_mt [of "\<lparr>behaviorId = 2, param1 = 0xE0, param2 = Some 0x04, position = 0\<rparr>" testResolver]
    formatBinding_lt_mt [of "\<lparr>behaviorId = 2, param1 = 0x1F, param2 = None, position = 0\<rparr>" testResolver]
  by (simp add: numberToString_def digitsOf.simps digitChar_def testResolver_def truthy_def)

text \<open>
  Claim C5 gives the marker for kp only when the resolver returns none, and the
  resolver's result otherwise. The source tests \<open>keyName || marker\<close>, so an empty name
  gives the marker as well; \<open>getZmkKeyName\<close> returns the empty name for the label \<open>!\<close>,
  and the binding is then formatted with the marker, not with the resolver's result.
\<close>

theorem formatBinding_kp_empty_name_counterexample:
  "getZmkKeyName sampleLabels 0xC0300 \<noteq> None
   \<and> formatBinding \<lparr>behaviorId = 1, param1 = 0xC0300, param2 = None, position = 0\<rparr>
        (getZmkKeyName sampleLabels) = ''&kp /* HID 0xc0300 */''
   \<and> formatBinding \<lparr>behaviorId = 1, param1 = 0xC0300, param2 = None, position = 0\<rparr>
        (getZmkKeyName sampleLabels) \<noteq> ''&kp '' @ the (getZmkKeyName sampleLabels 0xC0300)"
proof -
  have g: "getZmkKeyName sampleLabels 0xC0300 = Some []"
    by code_simp
  show ?thesis
    by (simp add: g formatBinding_def formatBindingFrom_def formatParam_def BEHAVIORS_def
          truthy_def numberToString_def digitsOf.simps digitChar_def)
qed

text \<open>
  Claim C5, as the source has it. For \<open>behaviorId\<close> 0 the result is \<open>&trans\<close>, whatever
  the parameters. For \<open>behaviorId\<close> 1 (kp) it is \<open>&kp\<close> and the resolver's name for
  \<open>param1\<close>, or the marker \<open>/* HID 0x<hex> */\<close> when the resolver returns none or the
  empty string. For ids 4, 5 and 6 it is \<open>&mo\<close>, \<open>&tog\<close>, \<open>&bt\<close> and \<open>param1\<close> in
  decimal, and the resolver plays no part: any two resolvers give the same result.
\<close>

theorem formatBinding_trans_and_one_param:
  "(behaviorId b = 0 \<longrightarrow> formatBinding b r = ''&trans'')
   \<and> (behaviorId b = 1 \<longrightarrow>
        formatBinding b r = ''&kp '' @
          (case r (param1 b) of
             None \<Rightarrow> ''/* HID 0x'' @ numberToString 16 (param1 b) @ '' */''
           | Some name \<Rightarrow> if name = [] then ''/* HID 0x'' @ numberToString 16 (param1 b) @ '' */''
                          else name))
   \<and> (behaviorId b = 4 \<longrightarrow> formatBinding b r = ''&mo '' @ numberToString 10 (param1 b))
   \<and> (behaviorId b = 5 \<longrightarrow> formatBinding b r = ''&tog '' @ numberToString 10 (param1 b))
   \<and> (behaviorId b = 6 \<longrightarrow> formatBinding b r = ''&bt '' @ numberToString 10 (param1 b))
   \<and> (behaviorId b \<in> {0, 4, 5, 6} \<longrightarrow> formatBinding b r = formatBinding b r')"
  by (simp add: formatBinding_def formatBindingFrom_def formatParam_def BEHAVIORS_def truthy_def
           split: option.split)

theorem formatBinding_trans_and_one_param_witness:
  "formatBinding \<lparr>behaviorId = 0, param1 = 5, param2 = Some 9, position = 0\<rparr> testResolver = ''&trans''
   \<and> formatBinding \<lparr>behaviorId = 1, param1 = 0x04, param2 = None, position = 0\<rparr> testResolver = ''&kp Q''
   \<and> formatBinding \<lparr>behaviorId = 1, param1 = 0xFF, param2 = None, position = 0\<rparr> testResolver
        = ''&kp /* HID 0xff */''
   \<and> formatBinding \<lparr>behaviorId = 1, param1 = 0x04, param2 = None, position = 0\<rparr> emptyNameResolver
        = ''&kp /* HID 0x4 */''
   \<and> formatBinding \<lparr>behaviorId = 4, param1 = 1, param2 = None, position = 0\<rparr> testResolver = ''&mo 1''
   \<and> formatBinding \<lparr>behaviorId = 5, param1 = 2, param2 = None, position = 0\<rparr> testResolver = ''&tog 2''
   \<and> formatBinding \<lparr>behaviorId = 6, param1 = 10, param2 = None, position = 0\<rparr> testResolver = ''&bt 10''
   \<and> formatBinding \<lparr>behaviorId = 6, param1 = 10, param2 = None, position = 0\<rparr> testResolver
        = formatBinding \<lparr>behaviorId = 6, param1 = 10, param2 = None, position = 0\<rparr> emptyNameResolver"
  using
    formatBinding_trans_and_one_param
      [of "\<lparr>behaviorId = 0, param1 = 5, param2 = Some 9, position = 0\<rparr>" testResolver emptyNameResolver]
    formatBinding_trans_and_one_param
      [of "\<lparr>behaviorId = 1, param1 = 0x04, param2 = None, position = 0\<rparr>" testResolver emptyNameResolver]
    formatBinding_trans_and_one_param
      [of "\<lparr>behaviorId = 1, param1 = 0xFF, param2 = None, position = 0\<rparr>" testResolver emptyNameResolver]
    formatBinding_trans_and_one_param
      [of "\<lparr>behaviorId = 1, param1 = 0x04, param2 = None, position = 0\<rparr>" emptyNameResolver testResolver]
    formatBinding_trans_and_one_param
      [of "\<lparr>behaviorId = 4, param1 = 1, param2 = None, position = 0\<rparr>" testResolver emptyNameResolver]
    formatBinding_trans_and_one_param
      [of "\<lparr>behaviorId = 5, param1 = 2, param2 = None, position = 0\<rparr>" testResolver emptyNameResolver]
    formatBinding_trans_and_one_param
      [of "\<lparr>behaviorId = 6, param1 = 10, param2 = None, position = 0\<rparr>" testResolver emptyNameResolver]
  by (auto simp add: numberToString_def digitsOf.simps digitChar_def testResolver_def
        emptyNameResolver_def)

section \<open>The names that \<open>getZmkKeyName\<close> returns\<close>

lemma getZmkKeyName_label:
  assumes "hid_usage_page_and_id_from_usage u = (p, i)"
  shows "getZmkKeyName db u =
     (if p \<noteq> 7 \<and> p \<noteq> 12 then None
      else if p = 7 \<and> i \<in> {0xE0..0xE7} then
        (if truthy (map_of modifierMap i) then map_of modifierMap i else None)
      else nameOfLabel KEY_NAME_OVERRIDES (db p i))"
  by (simp add: getZmkKeyName_def assms nameOfLabel_def Let_def HID_PAGE_KEYBOARD_def
        HID_PAGE_CONSUMER_def)

lemma getZmkKeyName_part_000_label:
  assumes "hid_usage_page_and_id_from_usage u = (p, i)"
  shows "getZmkKeyName_part_000 db u =
     (if p \<noteq> 7 \<and> p \<noteq> 12 then None else nameOfLabel KEY_NAME_OVERRIDES_part_000 (db p i))"
  by (simp add: getZmkKeyName_part_000_def assms nameOfLabel_def Let_def HID_PAGE_KEYBOARD_def
        HID_PAGE_CONSUMER_def)

lemma nameOfLabel_fallback:
  assumes "l \<noteq> []" and "map_of overrides l = None" and "\<not> testSingleUpper l"
  shows "nameOfLabel overrides (Some l) = Some (cleanKeyName (removeKeyboardPrefix l))"
  using assms by (simp add: nameOfLabel_def truthy_def)

lemma getZmkKeyName_fallback_empty:
  assumes "hid_usage_page_and_id_from_usage u = (p, i)"
    and "p = 0x07 \<or> p = 0x0C"
    and "db p i = Some l" and "l \<noteq> []"
    and "\<not> testSingleUpper l"
    and "cleanKeyName (removeKeyboardPrefix l) = []"
  shows "(\<not> (p = 0x07 \<and> 0xE0 \<le> i \<and> i \<le> 0xE7) \<and> map_of KEY_NAME_OVERRIDES l = None
            \<longrightarrow> getZmkKeyName db u = Some [] \<and> \<not> truthy (getZmkKeyName db u))
       \<and> (map_of KEY_NAME_OVERRIDES_part_000 l = None
            \<longrightarrow> getZmkKeyName_part_000 db u = Some [] \<and> \<not> truthy (getZmkKeyName_part_000 db u))"
proof (intro conjI impI)
  assume a: "\<not> (p = 0x07 \<and> 0xE0 \<le> i \<and> i \<le> 0xE7) \<and> map_of KEY_NAME_OVERRIDES l = None"
  then have nm: "(p = 7 \<and> i \<in> {0xE0..0xE7}) = False"
    by simp
  from a assms(4,5,6) have "nameOfLabel KEY_NAME_OVERRIDES (Some l) = Some []"
    by (simp add: nameOfLabel_fallback)
  with assms(2,3) show "getZmkKeyName db u = Some []"
    unfolding getZmkKeyName_label[OF assms(1)] nm by auto
  then show "\<not> truthy (getZmkKeyName db u)"
    by (simp add: truthy_def)
next
  assume "map_of KEY_NAME_OVERRIDES_part_000 l = None"
  with assms(4,5,6) have "nameOfLabel KEY_NAME_OVERRIDES_part_000 (Some l) = Some []"
    by (simp add: nameOfLabel_fallback)
  with assms(2,3) show "getZmkKeyName_part_000 db u = Some []"
    unfolding getZmkKeyName_part_000_label[OF assms(1)] by auto
  then show "\<not> truthy (getZmkKeyName_part_000 db u)"
    by (simp add: truthy_def)
qed

text \<open>
  Claim C2. The claim is that \<open>getZmkKeyName\<close> never returns the empty string, and
  returns none when the replacements leave nothing of the label. Neither copy of the
  function does so: the last statement returns the result of the replacements as it is.
  For the Consumer usage 0x300 with the label \<open>!\<close>, which is present, in no override
  table and not a single upper-case letter, the replacements leave the empty string, and
  both copies return that empty string. The function's comment promises a key name or
  null, and its modifier branch turns a missing name into null (\<open>|| null\<close>).
\<close>

theorem getZmkKeyName_returns_empty_name:
  "hid_usage_page_and_id_from_usage 0xC0300 = (0x0C, 0x300)
   \<and> sampleLabels 0x0C 0x300 = Some ''!''
   \<and> map_of KEY_NAME_OVERRIDES ''!'' = None
   \<and> map_of KEY_NAME_OVERRIDES_part_000 ''!'' = None
   \<and> \<not> testSingleUpper ''!''
   \<and> cleanKeyName (removeKeyboardPrefix ''!'') = []
   \<and> getZmkKeyName sampleLabels 0xC0300 = Some []
   \<and> getZmkKeyName_part_000 sampleLabels 0xC0300 = Some []"
  by code_simp

text \<open>
  Claim C9 says that the two copies of \<open>getZmkKeyName\<close> return the same result for
  every usage code and database. They do not: on a modifier id the copy with the modifier
  table answers without the database, and a label that only one override table knows is
  renamed by that copy alone.
\<close>

theorem getZmkKeyName_copies_differ_counterexample:
  "getZmkKeyName_part_000 noLabels 0x700E4 = None
   \<and> getZmkKeyName noLabels 0x700E4 = Some ''RCTRL''
   \<and> getZmkKeyName_part_000 sampleLabels 0x70029 = Some ''ESC''
   \<and> getZmkKeyName sampleLabels 0x70029 = Some ''ESCAPE''
   \<and> getZmkKeyName_part_000 sampleLabels 0x7001E = Some ''1''
   \<and> getZmkKeyName sampleLabels 0x7001E = Some ''N1''"
  by code_simp

text \<open>
  Claim C9, as the source has it. The two copies of \<open>getZmkKeyName\<close> agree on every usage
  code that is not a Keyboard-page modifier (ids 0xE0 to 0xE7) and whose label, if the
  database has one, has the same entry, or none, in both override tables.
\<close>

theorem getZmkKeyName_copies_agree:
  assumes "hid_usage_page_and_id_from_usage u = (p, i)"
    and "\<not> (p = 0x07 \<and> 0xE0 \<le> i \<and> i \<le> 0xE7)"
    and "case db p i of None \<Rightarrow> True
         | Some l \<Rightarrow> map_of KEY_NAME_OVERRIDES_part_000 l = map_of KEY_NAME_OVERRIDES l"
  shows "getZmkKeyName_part_000 db u = getZmkKeyName db u"
proof -
  have eq: "nameOfLabel KEY_NAME_OVERRIDES_part_000 (db p i) = nameOfLabel KEY_NAME_OVERRIDES (db p i)"
    using assms(3) by (cases "db p i") (simp_all add: nameOfLabel_def truthy_def)
  from assms(2) have nm: "(p = 7 \<and> i \<in> {0xE0..0xE7}) = False"
    by simp
  show ?thesis
    unfolding getZmkKeyName_label[OF assms(1)] getZmkKeyName_part_000_label[OF assms(1)] nm eq
    by simp
qed

theorem getZmkKeyName_copies_agree_witness:
  "getZmkKeyName_part_000 sampleLabels 0x70053 = getZmkKeyName sampleLabels 0x70053
   \<and> getZmkKeyName sampleLabels 0x70053 = Some ''KEYPAD_NUM_LOCK_AND_CLEAR''"
proof -
  have h: "hid_usage_page_and_id_from_usage 0x70053 = (0x07, 0x53)"
    "case sampleLabels 0x07 0x53 of None \<Rightarrow> True
         | Some l \<Rightarrow> map_of KEY_NAME_OVERRIDES_part_000 l = map_of KEY_NAME_OVERRIDES l"
    "getZmkKeyName sampleLabels 0x70053 = Some ''KEYPAD_NUM_LOCK_AND_CLEAR''"
    by code_simp+
  show ?thesis
    using getZmkKeyName_copies_agree[of "0x70053" "0x07" "0x53" sampleLabels] h by simp
qed

lemma set_collapseUnderscores: "set (collapseUnderscores s) \<subseteq> set s"
  by (induction s rule: collapseUnderscores.induct) auto

lemma set_trimUnderscoreEnds: "set (trimUnderscoreEnds s) \<subseteq> set s"
proof -
  have b: "set (butlast t) \<subseteq> set t" for t :: string
    by (auto dest: in_set_butlastD)
  show ?thesis
    using b by (cases s) (auto simp: trimUnderscoreEnds_def Let_def dest: in_set_butlastD)
qed

lemma upperChar_valid:
  assumes "isAlnum c \<or> c = CHR ''_''"
  shows "validNameChar (upperChar c)"
proof (cases "isLowerAZ c")
  case True
  then have "97 \<le> (of_char c :: nat)" "(of_char c :: nat) \<le> 122"
    by (simp_all add: isLowerAZ_def)
  then have "isUpperAZ (char_of (of_char c - (32::nat)))"
    by (simp add: isUpperAZ_def) arith
  with True show ?thesis
    by (simp add: upperChar_def validNameChar_def)
next
  case False
  with assms show ?thesis
    by (auto simp: upperChar_def validNameChar_def isAlnum_def)
qed

lemma cleanKeyName_valid: "\<forall>c \<in> set (cleanKeyName s). validNameChar c"
proof
  fix c assume "c \<in> set (cleanKeyName s)"
  then obtain d where d: "d \<in> set (trimUnderscoreEnds (collapseUnderscores (replaceNonAlnum s)))"
    and c: "c = upperChar d"
    by (auto simp: cleanKeyName_def toUpperCase_def)
  from d have "d \<in> set (replaceNonAlnum s)"
    using set_trimUnderscoreEnds set_collapseUnderscores by blast
  then have "isAlnum d \<or> d = CHR ''_''"
    by (auto simp: replaceNonAlnum_def)
  with c show "validNameChar c"
    by (simp add: upperChar_valid)
qed

lemma overrides_valid:
  "\<forall>(k, v) \<in> set KEY_NAME_OVERRIDES. \<forall>c \<in> set v. validNameChar c"
  by (simp add: KEY_NAME_OVERRIDES_def validNameChar_def isUpperAZ_def isDigit09_def)

lemma overrides_part_000_valid:
  "\<forall>(k, v) \<in> set KEY_NAME_OVERRIDES_part_000. \<forall>c \<in> set v. validNameChar c"
  by (simp add: KEY_NAME_OVERRIDES_part_000_def validNameChar_def isUpperAZ_def isDigit09_def)

lemma modifierMap_valid:
  "\<forall>(k, v) \<in> set modifierMap. \<forall>c \<in> set v. validNameChar c"
  by (simp add: modifierMap_def validNameChar_def isUpperAZ_def isDigit09_def)

lemma map_of_valid:
  assumes "\<forall>(k, v) \<in> set tab. \<forall>c \<in> set v. validNameChar c" and "map_of tab key = Some s"
  shows "\<forall>c \<in> set s. validNameChar c"
  using assms map_of_SomeD by fastforce

lemma testSingleUpper_valid: "testSingleUpper s \<Longrightarrow> \<forall>c \<in> set s. validNameChar c"
  by (auto simp: testSingleUpper_def validNameChar_def split: list.splits)

text \<open>
  Claim C10. Whenever a copy of \<open>getZmkKeyName\<close> returns a string, every character of
  it is one of \<open>A-Z\<close>, \<open>0-9\<close> and the underscore: the values of the override tables and
  of the modifier table are such names, a single upper-case letter is one, and the
  replacements leave nothing else.
\<close>

theorem getZmkKeyName_charset:
  "(getZmkKeyName db u = Some s \<longrightarrow> (\<forall>c \<in> set s. isUpperAZ c \<or> isDigit09 c \<or> c = CHR ''_''))
 \<and> (getZmkKeyName_part_000 db u = Some s \<longrightarrow> (\<forall>c \<in> set s. isUpperAZ c \<or> isDigit09 c \<or> c = CHR ''_''))"
proof (intro conjI impI)
  assume a: "getZmkKeyName db u = Some s"
  obtain p i where d: "hid_usage_page_and_id_from_usage u = (p, i)"
    by (cases "hid_usage_page_and_id_from_usage u")
  from a d have "\<forall>c \<in> set s. validNameChar c"
    using map_of_valid[OF overrides_valid] map_of_valid[OF modifierMap_valid]
      testSingleUpper_valid cleanKeyName_valid
    by (auto simp: getZmkKeyName_def Let_def truthy_def split: if_splits option.splits)
  then show "\<forall>c \<in> set s. isUpperAZ c \<or> isDigit09 c \<or> c = CHR ''_''"
    by (simp add: validNameChar_def)
next
  assume a: "getZmkKeyName_part_000 db u = Some s"
  obtain p i where d: "hid_usage_page_and_id_from_usage u = (p, i)"
    by (cases "hid_usage_page_and_id_from_usage u")
  from a d have "\<forall>c \<in> set s. validNameChar c"
    using map_of_valid[OF overrides_part_000_valid]
      testSingleUpper_valid cleanKeyName_valid
    by (auto simp: getZmkKeyName_part_000_def Let_def truthy_def split: if_splits option.splits)
  then show "\<forall>c \<in> set s. isUpperAZ c \<or> isDigit09 c \<or> c = CHR ''_''"
    by (simp add: validNameChar_def)
qed

theorem getZmkKeyName_charset_witness:
  "getZmkKeyName sampleLabels 0x70053 = Some ''KEYPAD_NUM_LOCK_AND_CLEAR''
   \<and> getZmkKeyName_part_000 sampleLabels 0x7001E = Some ''1''
   \<and> list_all validNameChar ''KEYPAD_NUM_LOCK_AND_CLEAR''
   \<and> isDigit09 CHR ''1''"
proof -
  have h: "getZmkKeyName sampleLabels 0x70053 = Some ''KEYPAD_NUM_LOCK_AND_CLEAR''"
    "getZmkKeyName_part_000 sampleLabels 0x7001E = Some ''1''"
    by code_simp+
  have n1: "\<not> isUpperAZ CHR ''1''" "CHR ''1'' \<noteq> CHR ''_''"
    by (simp_all add: isUpperAZ_def)
  show ?thesis
    using getZmkKeyName_charset[of sampleLabels "0x70053" "''KEYPAD_NUM_LOCK_AND_CLEAR''"]
      getZmkKeyName_charset[of sampleLabels "0x7001E" "''1''"] h n1
    by (simp add: list_all_iff validNameChar_def)
qed

section \<open>The rows of a layer\<close>

lemma rowsOfSix_short: "length xs \<le> 6 \<Longrightarrow> rowsOfSix xs = [xs]"
  by (subst rowsOfSix.simps) simp

lemma rowsOfSix_long: "6 < length xs \<Longrightarrow> rowsOfSix xs = take 6 xs # rowsOfSix (drop 6 xs)"
  by (subst rowsOfSix.simps) simp

lemma rowsOfSix_not_Nil: "rowsOfSix xs \<noteq> []"
  by (cases "length xs \<le> 6") (simp_all add: rowsOfSix_short rowsOfSix_long)

lemma concat_rowsOfSix: "concat (rowsOfSix xs) = xs"
proof (induction xs rule: rowsOfSix.induct)
  case (1 xs)
  then show ?case
    by (cases "length xs \<le> 6") (simp_all add: rowsOfSix_short rowsOfSix_long)
qed

lemma rows_count_step:
  assumes "6 < n"
  shows "Suc (Suc ((n - 6 - 1) div 6)) = Suc ((n - 1) div (6::nat))"
proof -
  from assms obtain m where "n = m + 7"
    by (metis Suc_leI add.commute le_add_diff_inverse eval_nat_numeral(3))
  then show ?thesis
    by simp
qed

lemma length_rowsOfSix: "length (rowsOfSix xs) = Suc ((length xs - 1) div 6)"
proof (induction xs rule: rowsOfSix.induct)
  case (1 xs)
  show ?case
  proof (cases "length xs \<le> 6")
    case True
    then show ?thesis
      by (simp add: rowsOfSix_short)
  next
    case False
    then have l: "6 < length xs"
      by simp
    from l have "Suc (Suc ((length xs - 6 - 1) div 6)) = Suc ((length xs - 1) div 6)"
      by (rule rows_count_step)
    with False l "1" show ?thesis
      by (simp add: rowsOfSix_long)
  qed
qed

lemma rowsOfSix_row_bound:
  "row \<in> set (rowsOfSix xs) \<Longrightarrow> length row \<le> 6"
proof (induction xs rule: rowsOfSix.induct)
  case (1 xs)
  show ?case
  proof (cases "length xs \<le> 6")
    case True
    with "1.prems" show ?thesis
      by (simp add: rowsOfSix_short)
  next
    case False
    then have l: "6 < length xs"
      by simp
    with "1.prems" have "row = take 6 xs \<or> row \<in> set (rowsOfSix (drop 6 xs))"
      by (simp add: rowsOfSix_long)
    then show ?thesis
    proof
      assume "row = take 6 xs"
      then show ?thesis by simp
    next
      assume "row \<in> set (rowsOfSix (drop 6 xs))"
      with "1.IH"[OF False] show ?thesis .
    qed
  qed
qed

lemma rowsOfSix_full_rows:
  "row \<in> set (butlast (rowsOfSix xs)) \<Longrightarrow> length row = 6"
proof (induction xs rule: rowsOfSix.induct)
  case (1 xs)
  show ?case
  proof (cases "length xs \<le> 6")
    case True
    with "1.prems" show ?thesis
      by (simp add: rowsOfSix_short)
  next
    case False
    then have l: "6 < length xs"
      by simp
    with "1.prems" have "row = take 6 xs \<or> row \<in> set (butlast (rowsOfSix (drop 6 xs)))"
      by (simp add: rowsOfSix_long rowsOfSix_not_Nil)
    then show ?thesis
    proof
      assume "row = take 6 xs"
      with l show ?thesis by simp
    next
      assume "row \<in> set (butlast (rowsOfSix (drop 6 xs)))"
      with "1.IH"[OF False] show ?thesis .
    qed
  qed
qed

text \<open>
  Claim C6. The rows of a layer, read in order, are the formatted bindings in ascending
  order of \<open>position\<close>, a rearrangement of the stored bindings and not their stored
  order. Every row but the last has exactly 6 tokens and the last has at most 6; each
  row is one text line. A layer with 12 bindings has exactly 2 rows and a layer with at
  most 6 bindings has exactly 1 row.
\<close>

theorem generateLayer_rows_layout:
  "concat (generateLayer_rows db layer)
     = map (\<lambda>b. formatBinding b (getZmkKeyName db)) (sort_key position (bindings layer))
   \<and> sorted (map position (sort_key position (bindings layer)))
   \<and> mset (sort_key position (bindings layer)) = mset (bindings layer)
   \<and> (\<forall>row \<in> set (butlast (generateLayer_rows db layer)). length row = 6)
   \<and> length (last (generateLayer_rows db layer)) \<le> 6
   \<and> generateLayer_lines db layer = map joinTokens (generateLayer_rows db layer)
   \<and> (length (bindings layer) = 12 \<longrightarrow> length (generateLayer_rows db layer) = 2)
   \<and> (length (bindings layer) \<le> 6 \<longrightarrow> length (generateLayer_rows db layer) = 1)"
proof -
  have len: "length (generateLayer_rows db layer) = Suc ((length (bindings layer) - 1) div 6)"
    by (simp add: generateLayer_rows_def length_rowsOfSix)
  have twelve: "length (bindings layer) = 12 \<longrightarrow> length (generateLayer_rows db layer) = 2"
    using len by simp
  have one: "length (bindings layer) \<le> 6 \<longrightarrow> length (generateLayer_rows db layer) = 1"
    using len by simp
  have full: "\<forall>row \<in> set (butlast (generateLayer_rows db layer)). length row = 6"
    using rowsOfSix_full_rows by (auto simp: generateLayer_rows_def)
  have "last (generateLayer_rows db layer) \<in> set (generateLayer_rows db layer)"
    by (simp add: generateLayer_rows_def rowsOfSix_not_Nil)
  then have lst: "length (last (generateLayer_rows db layer)) \<le> 6"
    using rowsOfSix_row_bound by (auto simp: generateLayer_rows_def)
  have cat: "concat (generateLayer_rows db layer)
     = map (\<lambda>b. formatBinding b (getZmkKeyName db)) (sort_key position (bindings layer))"
    by (simp add: generateLayer_rows_def concat_rowsOfSix)
  from twelve one full lst cat show ?thesis
    by (simp add: generateLayer_lines_def)
qed

theorem generateLayer_rows_layout_witness:
  "length (generateLayer_rows sampleLabels fullLayer) = 2
   \<and> length (generateLayer_rows sampleLabels unsortedLayer) = 1
   \<and> length (generateLayer_rows sampleLabels emptyLayer) = 1
   \<and> concat (generateLayer_rows sampleLabels unsortedLayer) = [''&kp A'', ''&mo 1'', ''&trans'']"
proof -
  have a: "getZmkKeyName sampleLabels 0x70004 = Some ''A''"
    by code_simp
  have f: "length (bindings fullLayer) = 12"
    by (simp add: fullLayer_def)
  have u: "length (bindings unsortedLayer) = 3"
    by (simp add: unsortedLayer_def)
  have e: "length (bindings emptyLayer) = 0"
    by (simp add: emptyLayer_def)
  have s: "map (\<lambda>b. formatBinding b (getZmkKeyName sampleLabels))
             (sort_key position (bindings unsortedLayer)) = [''&kp A'', ''&mo 1'', ''&trans'']"
    by (simp add: unsortedLayer_def a formatBinding_def formatBindingFrom_def formatParam_def
          BEHAVIORS_def truthy_def numberToString_def digitsOf.simps digitChar_def)
  from generateLayer_rows_layout[of sampleLabels fullLayer]
    generateLayer_rows_layout[of sampleLabels unsortedLayer]
    generateLayer_rows_layout[of sampleLabels emptyLayer] f u e s
  show ?thesis
    by simp
qed

section \<open>The copy returned by \<open>getAllBehaviors\<close>\<close>

lemma moduleInit_value:
  "moduleInit =
     (7, map (\<lambda>(k, b). BehaviorObject b) BEHAVIORS
         @ [MapObject [(0, 0), (1, 1), (2, 2), (3, 3), (4, 4), (5, 5), (6, 6)]])"
  by (simp add: moduleInit_def BEHAVIORS_def alloc_def)

lemma BEHAVIORS_ref_value: "BEHAVIORS_ref = 7"
  by (simp add: BEHAVIORS_ref_def moduleInit_value)

lemma initialStore_value:
  "initialStore = map (\<lambda>(k, b). BehaviorObject b) BEHAVIORS
         @ [MapObject [(0, 0), (1, 1), (2, 2), (3, 3), (4, 4), (5, 5), (6, 6)]]"
  by (simp add: initialStore_def moduleInit_value)

lemma length_initialStore: "length initialStore = 8"
  by (simp add: initialStore_value BEHAVIORS_def)

lemma deref_intact:
  assumes "take (length initialStore) s = initialStore" and "r < 8"
  shows "deref s r = deref initialStore r"
proof -
  from assms(1) have l: "8 \<le> length s"
    by (metis length_initialStore length_take min.cobounded1 min.commute)
  from assms have "s ! r = initialStore ! r"
    by (metis length_initialStore nth_take)
  with l assms(2) show ?thesis
    by (simp add: deref_def length_initialStore)
qed

lemma deref_registry:
  "deref initialStore 7 = Some (MapObject [(0, 0), (1, 1), (2, 2), (3, 3), (4, 4), (5, 5), (6, 6)])"
  by (simp add: deref_def initialStore_value BEHAVIORS_def)

lemma BEHAVIORS_get_initial: "BEHAVIORS_get initialStore = map_of BEHAVIORS"
proof
  fix k
  show "BEHAVIORS_get initialStore k = map_of BEHAVIORS k"
    by (simp add: BEHAVIORS_get_def BEHAVIORS_ref_value deref_registry)
       (simp add: deref_def initialStore_value BEHAVIORS_def)
qed

lemma mapContents_initial: "mapContents initialStore BEHAVIORS_ref = Some registryContents"
  by (simp add: mapContents_def BEHAVIORS_ref_value deref_registry registryContents_def)
     (simp add: deref_def initialStore_value BEHAVIORS_def)


lemma intact_length: "registryIntact c \<Longrightarrow> 8 \<le> length (heap c)"
  by (metis registryIntact_def length_initialStore length_take min.cobounded1 min.commute)

lemma step_intact:
  assumes "registryIntact c" and "step x c = Some c'" and "mapLevel x"
  shows "registryIntact c'"
proof (cases x)
  case CallGetAllBehaviors
  with assms(2) obtain es where c': "c' = \<lparr>heap = heap c @ [MapObject es], returned = returned c @ [length (heap c)]\<rparr>"
    by (auto simp: getAllBehaviors_def alloc_def split: option.splits object.splits)
  from assms(1) intact_length[OF assms(1)] show ?thesis
    by (auto simp: registryIntact_def c' length_initialStore less_Suc_eq)
next
  case (CallNewBehavior b)
  with assms(2) have c': "c' = c\<lparr>heap := heap c @ [BehaviorObject b]\<rparr>"
    by (simp add: alloc_def)
  from assms(1) intact_length[OF assms(1)] show ?thesis
    by (auto simp: registryIntact_def c' length_initialStore less_Suc_eq)
next
  case (CallMutate i m)
  with assms(2) obtain es where i: "i < length (returned c)"
    and c': "c' = c\<lparr>heap := (heap c)[returned c ! i := MapObject es]\<rparr>"
    by (auto simp: mutateMap_def split: if_splits option.splits object.splits)
  from assms(1) i have "8 \<le> returned c ! i"
    by (simp add: registryIntact_def length_initialStore)
  with assms(1) show ?thesis
    by (simp add: registryIntact_def c' length_initialStore)
next
  case (CallWriteRecord i k newRecord)
  with assms(3) show ?thesis
    by simp
qed

lemma run_intact:
  "registryIntact c \<Longrightarrow> run xs c = Some c' \<Longrightarrow> list_all mapLevel xs \<Longrightarrow> registryIntact c'"
proof (induction xs arbitrary: c)
  case Nil
  then show ?case by simp
next
  case (Cons x xs)
  from Cons.prems(2) obtain c1 where s: "step x c = Some c1" and r: "run xs c1 = Some c'"
    by (auto split: option.splits)
  from Cons.prems(3) have m: "mapLevel x" "list_all mapLevel xs"
    by simp_all
  from step_intact[OF Cons.prems(1) s m(1)] r m(2) show ?case
    by (rule Cons.IH)
qed

lemma moduleLoaded_intact: "registryIntact moduleLoaded"
  by (simp add: registryIntact_def moduleLoaded_def)

lemma intact_BEHAVIORS_get:
  assumes "registryIntact c"
  shows "BEHAVIORS_get (heap c) = map_of BEHAVIORS"
proof -
  from assms have t: "take (length initialStore) (heap c) = initialStore"
    by (simp add: registryIntact_def)
  have "BEHAVIORS_get (heap c) k = BEHAVIORS_get initialStore k" for k
  proof -
    have r: "map_of [(0, 0), (1, 1), (2, 2), (3, 3), (4, 4), (5, 5), (6, 6::nat)] k = Some v
              \<Longrightarrow> v < 8" for v
      by (auto split: if_splits)
    show ?thesis
      using r
      by (auto simp: BEHAVIORS_get_def BEHAVIORS_ref_value deref_intact[OF t] deref_registry
            split: option.splits object.splits)
  qed
  then show ?thesis
    by (simp add: BEHAVIORS_get_initial fun_eq_iff)
qed

lemma intact_mapContents:
  assumes "take (length initialStore) s = initialStore"
    and "deref s r = Some (MapObject [(0, 0), (1, 1), (2, 2), (3, 3), (4, 4), (5, 5), (6, 6)])"
  shows "mapContents s r = Some registryContents"
proof -
  have "mapContents s r = mapContents initialStore BEHAVIORS_ref"
    by (simp add: mapContents_def assms(2) BEHAVIORS_ref_value deref_registry
          deref_intact[OF assms(1)])
  then show ?thesis
    by (simp add: mapContents_initial)
qed


lemma shape_registry:
  assumes "registryShape c"
  shows "8 \<le> length (heap c)"
    and "deref (heap c) 7
           = Some (MapObject [(0, 0), (1, 1), (2, 2), (3, 3), (4, 4), (5, 5), (6, 6)])"
proof -
  from assms have l: "7 < length (heap c)" and e: "heap c ! 7 = initialStore ! 7"
    by (simp_all add: registryShape_def BEHAVIORS_ref_value)
  from l show "8 \<le> length (heap c)"
    by simp
  have "initialStore ! 7 = MapObject [(0, 0), (1, 1), (2, 2), (3, 3), (4, 4), (5, 5), (6, 6)]"
    using deref_registry by (simp add: deref_def length_initialStore)
  with l e show "deref (heap c) 7
           = Some (MapObject [(0, 0), (1, 1), (2, 2), (3, 3), (4, 4), (5, 5), (6, 6)])"
    by (simp add: deref_def)
qed

lemma intact_shape: "registryIntact c \<Longrightarrow> registryShape c"
proof -
  assume i: "registryIntact c"
  then have t: "take (length initialStore) (heap c) = initialStore"
    by (simp add: registryIntact_def)
  have n: "heap c ! r = initialStore ! r" if "r < 8" for r
    using t that by (metis length_initialStore nth_take)
  have b: "\<exists>b. initialStore ! r = BehaviorObject b" if "r < 7" for r
  proof -
    from that have "r \<in> {0, 1, 2, 3, 4, 5, 6}"
      by (simp add: numeral_eq_Suc less_Suc_eq)
    then show ?thesis
      by (auto simp: initialStore_value BEHAVIORS_def)
  qed
  from i have r: "\<forall>r \<in> set (returned c). 7 < r \<and> r < length (heap c)"
    by (auto simp: registryIntact_def length_initialStore)
  from i have d: "distinct (returned c)"
    by (simp add: registryIntact_def)
  from n b have o: "\<forall>r < 7. \<exists>b. heap c ! r = BehaviorObject b"
    by simp
  from intact_length[OF i] n[of 7] d r o show ?thesis
    by (simp add: registryShape_def BEHAVIORS_ref_value)
qed

lemma step_shape:
  assumes "registryShape c" and "step x c = Some c'"
  shows "registryShape c'"
proof (cases x)
  case CallGetAllBehaviors
  with assms(2) obtain es where c': "c' = \<lparr>heap = heap c @ [MapObject es], returned = returned c @ [length (heap c)]\<rparr>"
    by (auto simp: getAllBehaviors_def alloc_def split: option.splits object.splits)
  from assms(1) show ?thesis
    by (auto simp: registryShape_def c' BEHAVIORS_ref_value nth_append less_Suc_eq)
next
  case (CallNewBehavior b)
  with assms(2) have c': "c' = c\<lparr>heap := heap c @ [BehaviorObject b]\<rparr>"
    by (simp add: alloc_def)
  from assms(1) show ?thesis
    by (auto simp: registryShape_def c' BEHAVIORS_ref_value nth_append less_Suc_eq)
next
  case (CallMutate i m)
  with assms(2) obtain es where i: "i < length (returned c)"
    and c': "c' = c\<lparr>heap := (heap c)[returned c ! i := MapObject es]\<rparr>"
    by (auto simp: mutateMap_def split: if_splits option.splits object.splits)
  from assms(1) i have "7 < returned c ! i"
    by (simp add: registryShape_def BEHAVIORS_ref_value)
  with assms(1) show ?thesis
    by (simp add: registryShape_def c' BEHAVIORS_ref_value)
next
  case (CallWriteRecord i k newRecord)
  with assms(2) obtain r b where r: "deref (heap c) r = Some (BehaviorObject b)"
    and c': "c' = c\<lparr>heap := (heap c)[r := BehaviorObject newRecord]\<rparr>"
    by (auto simp: writeRecord_def split: if_splits option.splits object.splits)
  from r shape_registry(2)[OF assms(1)] have "r \<noteq> 7"
    by auto
  from r have rl: "r < length (heap c)"
    by (auto simp: deref_def split: if_splits)
  have o: "\<exists>b. (heap c)[r := BehaviorObject newRecord] ! r' = BehaviorObject b" if "r' < 7" for r'
  proof (cases "r' = r")
    case True
    with rl show ?thesis by simp
  next
    case False
    with assms(1) that show ?thesis
      by (simp add: registryShape_def BEHAVIORS_ref_value)
  qed
  from assms(1) \<open>r \<noteq> 7\<close> o show ?thesis
    by (simp add: registryShape_def c' BEHAVIORS_ref_value)
qed

lemma run_shape:
  "registryShape c \<Longrightarrow> run xs c = Some c' \<Longrightarrow> registryShape c'"
proof (induction xs arbitrary: c)
  case Nil
  then show ?case by simp
next
  case (Cons x xs)
  from Cons.prems(2) obtain c1 where s: "step x c = Some c1" and r: "run xs c1 = Some c'"
    by (auto split: option.splits)
  from step_shape[OF Cons.prems(1) s] r show ?case
    by (rule Cons.IH)
qed

lemma copy_contents:
  assumes "8 \<le> length s"
  shows "mapContents (s @ [MapObject [(0, 0), (1, 1), (2, 2), (3, 3), (4, 4), (5, 5), (6, 6)]])
           (length s)
         = Some (map (\<lambda>(k, v). (k, deref s v))
                   [(0, 0), (1, 1), (2, 2), (3, 3), (4, 4), (5, 5), (6, 6)])"
  using assms by (auto simp: mapContents_def deref_def nth_append)

lemma registry_contents:
  assumes "deref s 7 = Some (MapObject [(0, 0), (1, 1), (2, 2), (3, 3), (4, 4), (5, 5), (6, 6)])"
  shows "mapContents s BEHAVIORS_ref
         = Some (map (\<lambda>(k, v). (k, deref s v))
                   [(0, 0), (1, 1), (2, 2), (3, 3), (4, 4), (5, 5), (6, 6)])"
  using assms by (simp add: mapContents_def BEHAVIORS_ref_value)

text \<open>
  Claim C8 says that mutating what \<open>getAllBehaviors\<close> returned leaves the registry, and
  with it the results of later operations, unchanged. The copy is \<open>new Map(BEHAVIORS)\<close>:
  its entries refer to the \<open>Behavior\<close> objects of the registry. After
  \<open>getAllBehaviors().get(1).code = 'zz'\<close> the registry reads the changed object, and a
  key-press binding that was formatted as \<open>&kp Q\<close> is formatted as \<open>&zz 4\<close>.
\<close>

theorem getAllBehaviors_shared_records_counterexample:
  "run writeCalls moduleLoaded \<noteq> None
   \<and> returned (the (run writeCalls moduleLoaded)) = [8]
   \<and> formatBinding \<lparr>behaviorId = 1, param1 = 0x04, param2 = None, position = 0\<rparr> testResolver
        = ''&kp Q''
   \<and> formatBindingFrom (BEHAVIORS_get (heap (the (run writeCalls moduleLoaded))))
        \<lparr>behaviorId = 1, param1 = 0x04, param2 = None, position = 0\<rparr> testResolver
        = ''&zz 4''
   \<and> BEHAVIORS_get (heap (the (run writeCalls moduleLoaded))) 1 \<noteq> map_of BEHAVIORS 1"
proof -
  have r: "run writeCalls moduleLoaded
      = Some \<lparr>heap = initialStore[1 := BehaviorObject \<lparr>id_Behavior = 1, code = ''zz'',
                   displayName = ''Key Press'', paramCount = 1,
                   description = ''Basic key press''\<rparr>]
                 @ [MapObject [(0, 0), (1, 1), (2, 2), (3, 3), (4, 4), (5, 5), (6, 6)]],
              returned = [8]\<rparr>"
    by (simp add: writeCalls_def moduleLoaded_def getAllBehaviors_def writeRecord_def
          BEHAVIORS_ref_value deref_def alloc_def length_initialStore nth_append
          initialStore_value BEHAVIORS_def)
  have g: "BEHAVIORS_get (heap (the (run writeCalls moduleLoaded))) 1
           = Some \<lparr>id_Behavior = 1, code = ''zz'', displayName = ''Key Press'', paramCount = 1,
                   description = ''Basic key press''\<rparr>"
    by (simp add: writeCalls_def moduleLoaded_def getAllBehaviors_def writeRecord_def
          BEHAVIORS_get_def BEHAVIORS_ref_value deref_def alloc_def length_initialStore
          nth_append initialStore_value BEHAVIORS_def)
  have k: "formatBinding \<lparr>behaviorId = 1, param1 = 0x04, param2 = None, position = 0\<rparr> testResolver
        = ''&kp Q''"
    by (simp add: formatBinding_def formatBindingFrom_def formatParam_def BEHAVIORS_def
          testResolver_def truthy_def)
  have z: "formatBindingFrom (BEHAVIORS_get (heap (the (run writeCalls moduleLoaded))))
        \<lparr>behaviorId = 1, param1 = 0x04, param2 = None, position = 0\<rparr> testResolver
        = ''&zz 4''"
    by (simp add: g formatBindingFrom_def formatParam_def numberToString_def digitsOf.simps
          digitChar_def)
  have n: "BEHAVIORS_get (heap (the (run writeCalls moduleLoaded))) 1 \<noteq> map_of BEHAVIORS 1"
    by (simp add: g BEHAVIORS_def)
  from r k z n show ?thesis
    by simp
qed

text \<open>
  Claim C8, as the source has it. After the module is loaded and the caller has made any
  calls at all, \<open>getAllBehaviors\<close> returns a reference to a new \<open>Map\<close> whose contents
  are those of the registry at that moment; the reference differs from the registry's
  and from every reference returned before, so two calls return distinct objects. As
  long as the caller has used only the mutators of \<open>Map\<close> on what it was given (\<open>set\<close>,
  \<open>delete\<close>, \<open>clear\<close>) and has not written to a \<open>Behavior\<close> object, the registry holds
  its seven entries as created, \<open>BEHAVIORS.get\<close> reads what it read at the start, and
  \<open>formatBinding\<close> computes what it computed at the start.
\<close>

theorem getAllBehaviors_independent_copy:
  assumes "run calls moduleLoaded = Some c"
  shows "(\<exists>r s. getAllBehaviors (heap c) = Some (r, s)
            \<and> mapContents s r = mapContents (heap c) BEHAVIORS_ref
            \<and> r \<noteq> BEHAVIORS_ref \<and> r \<notin> set (returned c))
       \<and> distinct (returned c) \<and> BEHAVIORS_ref \<notin> set (returned c)
       \<and> (list_all mapLevel calls \<longrightarrow>
            mapContents (heap c) BEHAVIORS_ref = Some registryContents
            \<and> BEHAVIORS_get (heap c) = map_of BEHAVIORS
            \<and> formatBindingFrom (BEHAVIORS_get (heap c)) = formatBinding)"
proof -
  from run_shape[OF intact_shape[OF moduleLoaded_intact] assms] have sh: "registryShape c" .
  then have d: "distinct (returned c)"
    and b: "\<forall>r \<in> set (returned c). 7 < r \<and> r < length (heap c)"
    by (simp_all add: registryShape_def BEHAVIORS_ref_value)
  note l = shape_registry(1)[OF sh] and reg = shape_registry(2)[OF sh]
  let ?s = "heap c @ [MapObject [(0, 0), (1, 1), (2, 2), (3, 3), (4, 4), (5, 5), (6, 6)]]"
  have g: "getAllBehaviors (heap c) = Some (length (heap c), ?s)"
    by (simp add: getAllBehaviors_def BEHAVIORS_ref_value reg alloc_def)
  have m: "mapContents ?s (length (heap c)) = mapContents (heap c) BEHAVIORS_ref"
    by (simp only: copy_contents[OF l] registry_contents[OF reg])
  have fresh: "length (heap c) \<noteq> BEHAVIORS_ref" "length (heap c) \<notin> set (returned c)"
    using l b by (auto simp: BEHAVIORS_ref_value)
  have own: "BEHAVIORS_ref \<notin> set (returned c)"
    using b by (auto simp: BEHAVIORS_ref_value)
  have frame: "mapContents (heap c) BEHAVIORS_ref = Some registryContents
            \<and> BEHAVIORS_get (heap c) = map_of BEHAVIORS
            \<and> formatBindingFrom (BEHAVIORS_get (heap c)) = formatBinding"
    if ml: "list_all mapLevel calls"
  proof -
    from run_intact[OF moduleLoaded_intact assms ml] have i: "registryIntact c" .
    then have t: "take (length initialStore) (heap c) = initialStore"
      by (simp add: registryIntact_def)
    have mc: "mapContents (heap c) BEHAVIORS_ref = Some registryContents"
      using intact_mapContents[OF t] reg by (simp add: BEHAVIORS_ref_value)
    from mc intact_BEHAVIORS_get[OF i] show ?thesis
      by (simp add: formatBinding_def)
  qed
  from g m fresh have ex: "\<exists>r s. getAllBehaviors (heap c) = Some (r, s)
            \<and> mapContents s r = mapContents (heap c) BEHAVIORS_ref
            \<and> r \<noteq> BEHAVIORS_ref \<and> r \<notin> set (returned c)"
    by blast
  from frame have fr: "list_all mapLevel calls \<longrightarrow>
            mapContents (heap c) BEHAVIORS_ref = Some registryContents
            \<and> BEHAVIORS_get (heap c) = map_of BEHAVIORS
            \<and> formatBindingFrom (BEHAVIORS_get (heap c)) = formatBinding"
    by blast
  from ex d own fr show ?thesis
    by blast
qed

theorem getAllBehaviors_independent_copy_witness:
  "run sampleCalls moduleLoaded \<noteq> None
   \<and> returned (the (run sampleCalls moduleLoaded)) = [8, 9]
   \<and> mapContents (heap (the (run sampleCalls moduleLoaded))) 8
        = Some [(1, Some (BehaviorObject (the (map_of BEHAVIORS 6))))]
   \<and> BEHAVIORS_get (heap (the (run sampleCalls moduleLoaded))) = map_of BEHAVIORS
   \<and> mapContents (heap (the (run sampleCalls moduleLoaded))) BEHAVIORS_ref = Some registryContents"
proof -
  have r: "run sampleCalls moduleLoaded
      = Some \<lparr>heap = initialStore @ [MapObject [(1, 6)],
                 MapObject [(1, 6), (2, 2), (3, 3), (4, 4), (5, 5), (6, 6)]],
              returned = [8, 9]\<rparr>"
    by (simp add: sampleCalls_def moduleLoaded_def getAllBehaviors_def mutateMap_def
          BEHAVIORS_ref_value deref_def alloc_def length_initialStore nth_append
          initialStore_value BEHAVIORS_def)
  have m: "mapContents (initialStore @ [MapObject [(1, 6)],
                 MapObject [(1, 6), (2, 2), (3, 3), (4, 4), (5, 5), (6, 6)]]) 8
        = Some [(1, Some (BehaviorObject (the (map_of BEHAVIORS 6))))]"
    by (simp add: mapContents_def deref_def length_initialStore nth_append)
       (simp add: initialStore_value BEHAVIORS_def)
  have ml: "list_all mapLevel sampleCalls"
    by (simp add: sampleCalls_def)
  from getAllBehaviors_independent_copy[OF r] r m ml show ?thesis
    by simp
qed

end
